theory Spec2Isabelle
  imports Main "HOL-Library.Sublist"
begin

text \<open>
  The web search layer of langroid: \<open>WebSearchResult\<close>, \<open>google_search\<close> and
  \<open>metaphor_search\<close> of \<open>langroid/parsing/web_search.py\<close>, and \<open>MetaphorSearchTool.handle\<close>
  of \<open>langroid/agent/tools/metaphor_search_tool.py\<close>. Functions that touch the network or
  the environment take the world and return it with their result; an exception is the
  \<open>Inl\<close> of the result.
\<close>

section \<open>Python values and exceptions\<close>

text \<open>
  A Python \<open>str\<close> is modelled as a \<open>string\<close>: one list element stands for one character of
  the \<open>str\<close>, so \<open>length\<close> is Python's \<open>len\<close>. Every operation below (slicing, joining,
  concatenation) is independent of the character set.

  \<open>pyval\<close> holds the values that \<open>json.loads\<close> and the Google client hand to the program:
  a \<open>dict\<close> is kept as the list of its items in insertion order (its keys are distinct),
  a \<open>float\<close> as the numeral it was read from (no operation of the program looks into it).
\<close>

datatype pyval =
    PNone
  | PBool bool
  | PInt int
  | PFloat string
  | PStr string
  | PList "pyval list"
  | PDict "(string \<times> pyval) list"

text \<open>
  The exceptions that leave the program. \<open>Raised n\<close> is an exception raised inside a
  library call (\<open>requests\<close>, \<open>bs4\<close>, \<open>googleapiclient\<close>), named by its class.
\<close>

datatype exn =
    ValueError string
  | KeyError string
  | TypeError
  | JSONDecodeError
  | Raised string

abbreviation nl :: char where
  "nl \<equiv> CHR 0x0A"

text \<open>\<open>s[:n]\<close>: the first \<open>n\<close> items, and for a negative \<open>n\<close> all but the last \<open>-n\<close>.\<close>

definition slice_to :: "'a list \<Rightarrow> int \<Rightarrow> 'a list" where
  "slice_to s n = (if 0 \<le> n then take (nat n) s else take (nat (int (length s) + n)) s)"

text \<open>\<open>sep.join(xs)\<close>\<close>

fun join :: "string \<Rightarrow> string list \<Rightarrow> string" where
  "join sep [] = []"
| "join sep [x] = x"
| "join sep (x # y # ys) = x @ sep @ join sep (y # ys)"

text \<open>\<open>v[k]\<close> for a \<open>str\<close> key \<open>k\<close>: only a \<open>dict\<close> can be subscripted by a string.\<close>

fun subscript :: "pyval \<Rightarrow> string \<Rightarrow> exn + pyval" where
  "subscript (PDict items) k =
     (case map_of items k of None \<Rightarrow> Inl (KeyError k) | Some v \<Rightarrow> Inr v)"
| "subscript v k = Inl TypeError"

text \<open>
  \<open>for x in v\<close>: a list gives its elements, a \<open>dict\<close> its keys, a \<open>str\<close> its characters;
  nothing else is iterable.
\<close>

fun iterate :: "pyval \<Rightarrow> exn + pyval list" where
  "iterate (PList xs) = Inr xs"
| "iterate (PDict items) = Inr (map (\<lambda>(k, v). PStr k) items)"
| "iterate (PStr s) = Inr (map (\<lambda>c. PStr [c]) s)"
| "iterate v = Inl TypeError"

section \<open>The libraries and the outside world\<close>

text \<open>
  The pure library functions the program calls, as parameters:
  \<^item> \<open>stripped_strings body\<close> is \<open>BeautifulSoup(body, "lxml").stripped_strings\<close>, or the
    exception the parser raises;
  \<^item> \<open>json_loads text\<close> is \<open>json.loads(text)\<close>, \<open>None\<close> when it raises \<open>JSONDecodeError\<close>;
  \<^item> \<open>builtin_str v\<close> is \<open>str(v)\<close> for a value that is not a \<open>str\<close>.
\<close>

record lib =
  stripped_strings :: "string \<Rightarrow> exn + string list"
  json_loads :: "string \<Rightarrow> pyval option"
  builtin_str :: "pyval \<Rightarrow> string"

text \<open>The calls that reach the network, as the HTTP client libraries receive them.\<close>

datatype request =
    GET pyval
  | POST string pyval "(string \<times> string) list"
  | CSE_LIST "string option" string "string option" int

text \<open>
  The world outside the process:
  \<^item> \<open>environ\<close> is \<open>os.environ\<close>, \<open>dotenv_file\<close> the variables of the \<open>.env\<close> file;
  \<^item> \<open>sent\<close> is the list of network calls made so far, oldest first;
  \<^item> \<open>http_text\<close> answers a \<open>requests.get\<close> or \<open>requests.post\<close> with the \<open>text\<close> of the
    response or with an exception, \<open>cse_execute\<close> answers the Google client's \<open>execute()\<close>
    with the decoded response, \<open>discovery_build\<close> says whether \<open>build\<close> raises; each may
    depend on the calls made before.
\<close>

record world =
  environ :: "string \<rightharpoonup> string"
  dotenv_file :: "string \<rightharpoonup> string"
  sent :: "request list"
  http_text :: "request list \<Rightarrow> request \<Rightarrow> exn + string"
  cse_execute :: "request list \<Rightarrow> request \<Rightarrow> exn + pyval"
  discovery_build :: "request list \<Rightarrow> string option \<Rightarrow> exn option"

text \<open>\<open>load_dotenv()\<close>: variables of the \<open>.env\<close> file not yet in the environment are added.\<close>

definition load_dotenv :: "world \<Rightarrow> world" where
  "load_dotenv w = w\<lparr>environ := dotenv_file w ++ environ w\<rparr>"

definition getenv :: "world \<Rightarrow> string \<Rightarrow> string option" where
  "getenv w k = environ w k"

definition requests_get :: "world \<Rightarrow> pyval \<Rightarrow> (exn + string) \<times> world" where
  "requests_get w url =
     (http_text w (sent w) (GET url), w\<lparr>sent := sent w @ [GET url]\<rparr>)"

definition requests_post ::
  "world \<Rightarrow> string \<Rightarrow> pyval \<Rightarrow> (string \<times> string) list \<Rightarrow> (exn + string) \<times> world" where
  "requests_post w url payload headers =
     (http_text w (sent w) (POST url payload headers),
      w\<lparr>sent := sent w @ [POST url payload headers]\<rparr>)"

section \<open>WebSearchResult\<close>

text \<open>
  The constructor's \<open>title\<close> and \<open>link\<close> are whatever the caller passes (the backends pass
  values taken from the decoded response), so they are \<open>pyval\<close>s; \<open>full_content\<close> and
  \<open>summary\<close> are always \<open>str\<close>.
\<close>

record WebSearchResult =
  title :: pyval
  link :: pyval
  max_content_length :: int
  max_summary_length :: int
  full_content :: string
  summary :: string

definition get_summary :: "WebSearchResult \<Rightarrow> string" where
  "get_summary self = slice_to (full_content self) (max_summary_length self)"

definition get_full_content ::
  "lib \<Rightarrow> world \<Rightarrow> WebSearchResult \<Rightarrow> (exn + string) \<times> world" where
  "get_full_content py w self =
     (case requests_get w (link self) of
        (Inl e, w') \<Rightarrow> (Inl e, w')
      | (Inr response_text, w') \<Rightarrow>
          (case stripped_strings py response_text of
             Inl e \<Rightarrow> (Inl e, w')
           | Inr strings \<Rightarrow>
               (let text = join '' '' strings
                in (Inr (slice_to text (max_content_length self)), w'))))"

text \<open>
  \<open>__init__\<close> assigns the attributes in the order of the source; an attribute not yet
  assigned is held as the empty string, and no method reads one before its assignment.
\<close>

definition WebSearchResult_init ::
  "lib \<Rightarrow> world \<Rightarrow> pyval \<Rightarrow> pyval \<Rightarrow> int \<Rightarrow> int \<Rightarrow> (exn + WebSearchResult) \<times> world" where
  "WebSearchResult_init py w title' link' max_content_length' max_summary_length' =
     (let self = \<lparr>title = title', link = link',
                  max_content_length = max_content_length',
                  max_summary_length = max_summary_length',
                  full_content = [], summary = []\<rparr>
      in case get_full_content py w self of
           (Inl e, w') \<Rightarrow> (Inl e, w')
         | (Inr content, w') \<Rightarrow>
             (let self = self\<lparr>full_content := content\<rparr>;
                  self = self\<lparr>summary := get_summary self\<rparr>
              in (Inr self, w')))"

text \<open>A replacement field of an f-string: a \<open>str\<close> is inserted as it is.\<close>

definition format_field :: "lib \<Rightarrow> pyval \<Rightarrow> string" where
  "format_field py v = (case v of PStr s \<Rightarrow> s | _ \<Rightarrow> builtin_str py v)"

definition str_WebSearchResult :: "lib \<Rightarrow> WebSearchResult \<Rightarrow> string" where
  "str_WebSearchResult py self =
     ''Title: '' @ format_field py (title self) @ [nl] @
     ''Link: '' @ format_field py (link self) @ [nl] @
     ''Summary: '' @ summary self"

definition to_dict :: "WebSearchResult \<Rightarrow> (string \<times> pyval) list" where
  "to_dict self =
     [(''title'', title self),
      (''link'', link self),
      (''summary'', PStr (summary self)),
      (''full_content'', PStr (full_content self))]"

section \<open>The search backends\<close>

text \<open>
  The list comprehension of both backends, over the hits \<open>raw_results\<close> iterates to:
  \<open>[WebSearchResult(result["title"], result[key], 3500, 300) for result in raw_results]\<close>,
  with \<open>key\<close> \<open>"url"\<close> (Metaphor) or \<open>"link"\<close> (Google). The hits are normalized one after the
  other, and the first exception ends the comprehension.
\<close>

fun results_from ::
  "lib \<Rightarrow> string \<Rightarrow> world \<Rightarrow> pyval list \<Rightarrow> (exn + WebSearchResult list) \<times> world" where
  "results_from py key w [] = (Inr [], w)"
| "results_from py key w (result # rest) =
     (case subscript result ''title'' of
        Inl e \<Rightarrow> (Inl e, w)
      | Inr t \<Rightarrow>
          (case subscript result key of
             Inl e \<Rightarrow> (Inl e, w)
           | Inr l \<Rightarrow>
               (case WebSearchResult_init py w t l 3500 300 of
                  (Inl e, w') \<Rightarrow> (Inl e, w')
                | (Inr r, w') \<Rightarrow>
                    (case results_from py key w' rest of
                       (Inl e, w'') \<Rightarrow> (Inl e, w'')
                     | (Inr rs, w'') \<Rightarrow> (Inr (r # rs), w'')))))"

definition comprehension ::
  "lib \<Rightarrow> string \<Rightarrow> world \<Rightarrow> pyval \<Rightarrow> (exn + WebSearchResult list) \<times> world" where
  "comprehension py key w raw_results =
     (case iterate raw_results of
        Inl e \<Rightarrow> (Inl e, w)
      | Inr hits \<Rightarrow> results_from py key w hits)"

text \<open>The message of the \<open>ValueError\<close> of \<open>metaphor_search\<close>, a triple-quoted literal.\<close>

definition key_not_set :: string where
  "key_not_set =
     [nl] @ replicate 12 (CHR '' '') @ ''METAPHOR_API_KEY is not set. '' @
     [nl] @ replicate 12 (CHR '' '') @
     ''Please set the METAPHOR_API_KEY environment variable.'' @
     [nl] @ replicate 12 (CHR '' '')"

text \<open>
  \<open>metaphor_search\<close> up to the assignment of \<open>raw_results\<close> (lines 95 to 118 of
  \<open>web_search.py\<close>): the key check, the POST and the decoding of its response.
\<close>

definition metaphor_raw_results ::
  "lib \<Rightarrow> world \<Rightarrow> string \<Rightarrow> int \<Rightarrow> (exn + pyval) \<times> world" where
  "metaphor_raw_results py w query num_results =
     (let w1 = load_dotenv w;
          url = ''https://api.metaphor.systems/search''
      in case getenv w1 ''METAPHOR_API_KEY'' of
           None \<Rightarrow> (Inl (ValueError key_not_set), w1)
         | Some api_key \<Rightarrow>
             if api_key = [] then (Inl (ValueError key_not_set), w1)
             else
               (let payload = PDict [(''query'', PStr query),
                                     (''numResults'', PInt num_results)];
                    headers = [(''accept'', ''application/json''),
                               (''content-type'', ''application/json''),
                               (''x-api-key'', api_key)]
                in case requests_post w1 url payload headers of
                     (Inl e, w2) \<Rightarrow> (Inl e, w2)
                   | (Inr response_text, w2) \<Rightarrow>
                       (case json_loads py response_text of
                          None \<Rightarrow> (Inl JSONDecodeError, w2)
                        | Some decoded \<Rightarrow>
                            (case subscript decoded ''results'' of
                               Inl e \<Rightarrow> (Inl e, w2)
                             | Inr raw_results \<Rightarrow> (Inr raw_results, w2)))))"

definition metaphor_search ::
  "lib \<Rightarrow> world \<Rightarrow> string \<Rightarrow> int \<Rightarrow> (exn + WebSearchResult list) \<times> world" where
  "metaphor_search py w query num_results =
     (case metaphor_raw_results py w query num_results of
        (Inl e, w') \<Rightarrow> (Inl e, w')
      | (Inr raw_results, w') \<Rightarrow> comprehension py ''url'' w' raw_results)"

text \<open>
  \<open>service.cse().list(q=query, cx=cse_id, num=num_results).execute()\<close>, for a service built
  with \<open>developerKey=api_key\<close>: the call is made with whatever the environment gave.
\<close>

definition cse_list_execute ::
  "world \<Rightarrow> string option \<Rightarrow> string \<Rightarrow> string option \<Rightarrow> int \<Rightarrow> (exn + pyval) \<times> world" where
  "cse_list_execute w developerKey q cx num =
     (cse_execute w (sent w) (CSE_LIST developerKey q cx num),
      w\<lparr>sent := sent w @ [CSE_LIST developerKey q cx num]\<rparr>)"

definition google_search ::
  "lib \<Rightarrow> world \<Rightarrow> string \<Rightarrow> int \<Rightarrow> (exn + WebSearchResult list) \<times> world" where
  "google_search py w query num_results =
     (let w1 = load_dotenv w;
          api_key = getenv w1 ''GOOGLE_API_KEY'';
          cse_id = getenv w1 ''GOOGLE_CSE_ID''
      in case discovery_build w1 (sent w1) api_key of
           Some e \<Rightarrow> (Inl e, w1)
         | None \<Rightarrow>
             (case cse_list_execute w1 api_key query cse_id num_results of
                (Inl e, w2) \<Rightarrow> (Inl e, w2)
              | (Inr response, w2) \<Rightarrow>
                  (case subscript response ''items'' of
                     Inl e \<Rightarrow> (Inl e, w2)
                   | Inr raw_results \<Rightarrow> comprehension py ''link'' w2 raw_results)))"

section \<open>MetaphorSearchTool\<close>

text \<open>The two fields of the tool message that \<open>handle\<close> reads.\<close>

record MetaphorSearchTool =
  query :: string
  num_results :: int

definition handle :: "lib \<Rightarrow> world \<Rightarrow> MetaphorSearchTool \<Rightarrow> (exn + string) \<times> world" where
  "handle py w self =
     (case metaphor_search py w (query self) (num_results self) of
        (Inl e, w') \<Rightarrow> (Inl e, w')
      | (Inr search_results, w') \<Rightarrow>
          (Inr (join [nl, nl] (map (str_WebSearchResult py) search_results)), w'))"

text \<open>The one POST that \<open>metaphor_search\<close> makes for a query, a count and a key.\<close>

abbreviation metaphor_post :: "string \<Rightarrow> int \<Rightarrow> string \<Rightarrow> request" where
  "metaphor_post q n api_key \<equiv>
     POST ''https://api.metaphor.systems/search''
       (PDict [(''query'', PStr q), (''numResults'', PInt n)])
       [(''accept'', ''application/json''), (''content-type'', ''application/json''),
        (''x-api-key'', api_key)]"

section \<open>Reading an output back\<close>

text \<open>
  What a consumer of the output of \<open>handle\<close> sees when it cuts the text at blank lines:
  the empty output holds no block, and the blocks of any other output are the pieces of
  \<open>out.split("\n\n")\<close>, the text between successive occurrences of two newlines, found from
  left to right. This is not part of the program; the claims about the blocks of an output
  are stated with it.
\<close>

fun split_blank :: "string \<Rightarrow> string \<Rightarrow> string list" where
  "split_blank piece [] = [piece]"
| "split_blank piece [c] = [piece @ [c]]"
| "split_blank piece (c # d # cs) =
     (if c = nl \<and> d = nl then piece # split_blank [] cs
      else split_blank (piece @ [c]) (d # cs))"

definition blocks_of :: "string \<Rightarrow> string list" where
  "blocks_of out = (if out = [] then [] else split_blank [] out)"

text \<open>\<open>no_blank_line s\<close>: no two consecutive characters of \<open>s\<close> are both newlines.\<close>

fun no_blank_line :: "string \<Rightarrow> bool" where
  "no_blank_line [] = True"
| "no_blank_line [c] = True"
| "no_blank_line (c # d # cs) = (\<not> (c = nl \<and> d = nl) \<and> no_blank_line (d # cs))"

section \<open>Example runs\<close>

text \<open>
  The data of the examples: two pages, the responses of the search provider (one hit, two
  hits, an error object, and one hit whose title holds line breaks), a library that knows
  these texts, and a world in which the Metaphor key is set and the network serves them.
  No example formats a value that is not a \<open>str\<close>, and \<open>builtin_str\<close> of the example
  library is given for \<open>None\<close> only.
\<close>

definition paris_page :: string where
  \<open>paris_page = ''<html><body><p>Paris is the capital of France.</p></body></html>''\<close>

definition rome_page :: string where
  \<open>rome_page = ''<html><body><h1>Rome</h1><p>Capital of Italy.</p></body></html>''\<close>

definition paris_response :: string where
  \<open>paris_response = ''{"results": [{"title": "Paris", "url": "http://example.com/paris"}]}''\<close>

definition capitals_response :: string where
  \<open>capitals_response =
     ''{"results": [{"title": "Paris", "url": "http://example.com/paris"}, '' @
     ''{"title": "Rome", "url": "http://example.com/rome"}]}''\<close>

definition error_response :: string where
  \<open>error_response = ''{"error": "invalid query"}''\<close>

definition two_block_title :: string where
  "two_block_title =
     ''Paris'' @ [nl] @ ''Link: http://a'' @ [nl] @ ''Summary: b'' @ [nl, nl] @ ''Title: Rome''"

definition two_block_response :: string where
  \<open>two_block_response =
     ''{"results": [{"title": "Paris'' @ [CHR 0x5C] @ ''nLink: http://a'' @ [CHR 0x5C] @
     ''nSummary: b'' @ [CHR 0x5C] @ ''n'' @ [CHR 0x5C] @
     ''nTitle: Rome", "url": "http://example.com/paris"}]}''\<close>

definition paris_hit :: pyval where
  "paris_hit = PDict [(''title'', PStr ''Paris''), (''url'', PStr ''http://example.com/paris'')]"

definition rome_hit :: pyval where
  "rome_hit = PDict [(''title'', PStr ''Rome''), (''url'', PStr ''http://example.com/rome'')]"

definition example_lib :: lib where
  "example_lib =
     \<lparr>stripped_strings = (\<lambda>body.
          if body = paris_page then Inr [''Paris is the capital of France.'']
          else if body = rome_page then Inr [''Rome'', ''Capital of Italy.'']
          else Inr []),
      json_loads = (\<lambda>text.
          if text = paris_response then Some (PDict [(''results'', PList [paris_hit])])
          else if text = capitals_response
          then Some (PDict [(''results'', PList [paris_hit, rome_hit])])
          else if text = two_block_response
          then Some (PDict [(''results'', PList [PDict [(''title'', PStr two_block_title),
                              (''url'', PStr ''http://example.com/paris'')]])])
          else if text = error_response
          then Some (PDict [(''error'', PStr ''invalid query'')])
          else None),
      builtin_str = (\<lambda>v. case v of PNone \<Rightarrow> ''None'' | _ \<Rightarrow> [])\<rparr>"

definition example_http :: "string \<Rightarrow> request list \<Rightarrow> request \<Rightarrow> exn + string" where
  "example_http response history req =
     (case req of
        GET url \<Rightarrow>
          if url = PStr ''http://example.com/paris'' then Inr paris_page
          else if url = PStr ''http://example.com/rome'' then Inr rome_page
          else Inl (Raised ''ConnectionError'')
      | POST url payload headers \<Rightarrow> Inr response
      | CSE_LIST k q cx n \<Rightarrow> Inl (Raised ''InvalidSchema''))"

definition example_cse :: "request list \<Rightarrow> request \<Rightarrow> exn + pyval" where
  "example_cse history req =
     (case req of
        CSE_LIST (Some k) q (Some cx) n \<Rightarrow>
          Inr (PDict [(''items'', PList [PDict [(''title'', PStr ''Paris''),
                        (''link'', PStr ''http://example.com/paris'')]])])
      | _ \<Rightarrow> Inl (Raised ''HttpError''))"

definition example_world :: world where
  "example_world =
     \<lparr>environ = [''METAPHOR_API_KEY'' \<mapsto> ''secret''],
      dotenv_file = Map.empty,
      sent = [],
      http_text = example_http paris_response,
      cse_execute = example_cse,
      discovery_build = (\<lambda>history key. None)\<rparr>"

definition capitals_world :: world where
  "capitals_world = example_world\<lparr>http_text := example_http capitals_response\<rparr>"

definition two_block_world :: world where
  "two_block_world = example_world\<lparr>http_text := example_http two_block_response\<rparr>"

definition paris_result :: WebSearchResult where
  "paris_result =
     \<lparr>title = PStr ''Paris'', link = PStr ''http://example.com/paris'',
      max_content_length = 3500, max_summary_length = 300,
      full_content = ''Paris is the capital of France.'',
      summary = ''Paris is the capital of France.''\<rparr>"

definition rome_result :: WebSearchResult where
  "rome_result =
     \<lparr>title = PStr ''Rome'', link = PStr ''http://example.com/rome'',
      max_content_length = 3500, max_summary_length = 300,
      full_content = ''Rome Capital of Italy.'',
      summary = ''Rome Capital of Italy.''\<rparr>"

section \<open>Slices\<close>

lemma slice_to_prefix: "prefix (slice_to s n) s"
  by (simp add: slice_to_def take_is_prefix)

lemma slice_to_length: "0 \<le> n \<Longrightarrow> int (length (slice_to s n)) \<le> n"
  by (simp add: slice_to_def)

lemma slice_to_length_exact:
  "0 \<le> n \<Longrightarrow> n \<le> int (length s) \<Longrightarrow> int (length (slice_to s n)) = n"
  by (simp add: slice_to_def)

section \<open>Constructing a result\<close>

text \<open>
  When the fetch of the link answers and the parser accepts the body, the constructor
  returns the object with all six attributes set, after exactly one GET.
\<close>

lemma WebSearchResult_init_Inr:
  assumes "http_text w (sent w) (GET l) = Inr body"
      and "stripped_strings py body = Inr strings"
  shows "WebSearchResult_init py w t l mc ms =
           (Inr \<lparr>title = t, link = l, max_content_length = mc, max_summary_length = ms,
                  full_content = slice_to (join '' '' strings) mc,
                  summary = slice_to (slice_to (join '' '' strings) mc) ms\<rparr>,
            w\<lparr>sent := sent w @ [GET l]\<rparr>)"
  using assms
  by (simp add: WebSearchResult_init_def get_full_content_def requests_get_def get_summary_def)

lemma WebSearchResult_init_fields:
  assumes "WebSearchResult_init py w t l mc ms = (Inr r, w')"
  shows "title r = t" and "link r = l" and "max_content_length r = mc"
    and "max_summary_length r = ms" and "summary r = slice_to (full_content r) ms"
    and "w' = w\<lparr>sent := sent w @ [GET l]\<rparr>"
  using assms
  by (auto simp: WebSearchResult_init_def get_full_content_def requests_get_def get_summary_def
      Let_def split: sum.splits prod.splits)

lemma example_fetch:
  "http_text example_world (sent example_world) (GET (PStr ''http://example.com/paris''))
     = Inr paris_page"
  by (simp add: example_world_def example_http_def)

lemma example_strings:
  "stripped_strings example_lib paris_page = Inr [''Paris is the capital of France.'']"
  by (simp add: example_lib_def)

lemma example_init:
  "WebSearchResult_init example_lib example_world
     (PStr ''Paris'') (PStr ''http://example.com/paris'') mc ms =
     (Inr \<lparr>title = PStr ''Paris'', link = PStr ''http://example.com/paris'',
            max_content_length = mc, max_summary_length = ms,
            full_content = slice_to ''Paris is the capital of France.'' mc,
            summary = slice_to (slice_to ''Paris is the capital of France.'' mc) ms\<rparr>,
      example_world\<lparr>sent := [GET (PStr ''http://example.com/paris'')]\<rparr>)"
  using WebSearchResult_init_Inr [OF example_fetch example_strings]
  by (simp add: example_world_def)

text \<open>
  Claim C1, as amended. For every \<open>WebSearchResult\<close> constructed with any title, link,
  \<open>max_content_length\<close> and \<open>max_summary_length\<close>, the summary equals
  \<open>full_content[:max_summary_length]\<close> and is a prefix of \<open>full_content\<close>; its length is at
  most \<open>max_summary_length\<close> whenever \<open>max_summary_length\<close> is not negative.
\<close>

theorem summary_is_slice_of_full_content:
  assumes "WebSearchResult_init py w t l mc ms = (Inr r, w')"
  shows "summary r = slice_to (full_content r) ms \<and>
         prefix (summary r) (full_content r) \<and>
         (0 \<le> ms \<longrightarrow> int (length (summary r)) \<le> ms)"
  using WebSearchResult_init_fields(5) [OF assms]
  by (simp add: slice_to_prefix slice_to_length)

theorem summary_is_slice_of_full_content_witness:
  "summary \<lparr>title = PStr ''Paris'', link = PStr ''http://example.com/paris'',
             max_content_length = 3500, max_summary_length = 5,
             full_content = ''Paris is the capital of France.'', summary = ''Paris''\<rparr>
     = slice_to ''Paris is the capital of France.'' 5 \<and>
   prefix ''Paris'' ''Paris is the capital of France.'' \<and>
   int (length ''Paris'') \<le> 5"
  using summary_is_slice_of_full_content
    [of example_lib example_world "PStr ''Paris''" "PStr ''http://example.com/paris''" 3500 5]
  by (simp add: example_init slice_to_def)

text \<open>
  The claim as it was stated fails for a negative limit: with \<open>max_summary_length = -1\<close> the
  summary of the example page is the page text without its last character, 30 characters
  long, and 30 is not at most \<open>-1\<close>.
\<close>

theorem negative_summary_limit_counterexample:
  "map_sum id summary
     (fst (WebSearchResult_init example_lib example_world
             (PStr ''Paris'') (PStr ''http://example.com/paris'') 3500 (- 1)))
     = Inr ''Paris is the capital of France'' \<and>
   \<not> int (length ''Paris is the capital of France'') \<le> - 1"
  by (simp add: example_init slice_to_def)

text \<open>
  Claim C2, as amended. For every page whose extracted visible text is \<open>text\<close> (the
  stripped strings of the fetched body, joined by single spaces), the constructor succeeds
  and \<open>full_content\<close> is \<open>text[:max_content_length]\<close>, a prefix of \<open>text\<close>; when
  \<open>max_content_length\<close> is not negative its length is at most \<open>max_content_length\<close>, and
  exactly \<open>max_content_length\<close> when \<open>text\<close> is at least that long.
\<close>

theorem full_content_is_truncated_text:
  assumes "http_text w (sent w) (GET l) = Inr body"
      and "stripped_strings py body = Inr strings"
      and "text = join '' '' strings"
  shows "\<exists>r w'. WebSearchResult_init py w t l mc ms = (Inr r, w') \<and>
           full_content r = slice_to text mc \<and>
           prefix (full_content r) text \<and>
           (0 \<le> mc \<longrightarrow> int (length (full_content r)) \<le> mc) \<and>
           (0 \<le> mc \<and> mc \<le> int (length text) \<longrightarrow> int (length (full_content r)) = mc)"
  using assms
  by (simp add: WebSearchResult_init_Inr slice_to_prefix slice_to_length slice_to_length_exact)

theorem full_content_is_truncated_text_witness:
  "\<exists>r w'. WebSearchResult_init example_lib example_world
             (PStr ''Paris'') (PStr ''http://example.com/paris'') 10 300 = (Inr r, w') \<and>
          full_content r = ''Paris is t'' \<and>
          prefix (full_content r) ''Paris is the capital of France.'' \<and>
          int (length (full_content r)) = 10"
proof -
  have joined:
    "''Paris is the capital of France.'' = join '' '' [''Paris is the capital of France.'']"
    by simp
  from full_content_is_truncated_text
    [OF example_fetch example_strings joined, of "PStr ''Paris''" 10 300]
  show ?thesis by (auto simp: slice_to_def)
qed

text \<open>
  The claim as it was stated fails for a negative limit: with \<open>max_content_length = -1\<close> the
  content of the example page has 30 characters, which is neither at most \<open>-1\<close> nor equal
  to \<open>-1\<close>, although the page text (31 characters) is at least \<open>-1\<close> long.
\<close>

theorem negative_content_limit_counterexample:
  "map_sum id full_content
     (fst (WebSearchResult_init example_lib example_world
             (PStr ''Paris'') (PStr ''http://example.com/paris'') (- 1) 300))
     = Inr ''Paris is the capital of France'' \<and>
   \<not> int (length ''Paris is the capital of France'') \<le> - 1 \<and>
   - 1 \<le> int (length ''Paris is the capital of France.'') \<and>
   int (length ''Paris is the capital of France'') \<noteq> - 1"
  by (simp add: example_init slice_to_def)

text \<open>
  Claim C7. Normalizing the same hit twice with the same limits, when the fetch of its URL
  answers with the same body both times (whatever else differs between the two worlds),
  yields the same \<open>WebSearchResult\<close>: the same title, link, \<open>full_content\<close> and summary.
\<close>

theorem normalization_deterministic:
  assumes "http_text w1 (sent w1) (GET l) = Inr body"
      and "http_text w2 (sent w2) (GET l) = Inr body"
      and "stripped_strings py body = Inr strings"
  shows "\<exists>r. fst (WebSearchResult_init py w1 t l mc ms) = Inr r \<and>
             fst (WebSearchResult_init py w2 t l mc ms) = Inr r \<and>
             title r = t \<and> link r = l"
  using assms by (simp add: WebSearchResult_init_Inr)

theorem normalization_deterministic_witness:
  "\<exists>r. fst (WebSearchResult_init example_lib example_world
               (PStr ''Paris'') (PStr ''http://example.com/paris'') 3500 300) = Inr r \<and>
        fst (WebSearchResult_init example_lib
               (example_world\<lparr>sent := [GET (PStr ''http://example.com/paris'')]\<rparr>)
               (PStr ''Paris'') (PStr ''http://example.com/paris'') 3500 300) = Inr r \<and>
        title r = PStr ''Paris'' \<and> link r = PStr ''http://example.com/paris''"
proof -
  have again:
    "http_text (example_world\<lparr>sent := [GET (PStr ''http://example.com/paris'')]\<rparr>)
       (sent (example_world\<lparr>sent := [GET (PStr ''http://example.com/paris'')]\<rparr>))
       (GET (PStr ''http://example.com/paris'')) = Inr paris_page"
    by (simp add: example_world_def example_http_def)
  from normalization_deterministic
    [OF example_fetch again example_strings, of "PStr ''Paris''" 3500 300]
  show ?thesis by simp
qed

text \<open>
  Claim C10. For every \<open>WebSearchResult\<close> \<open>r\<close>, \<open>r.to_dict()\<close> has exactly the four keys
  \<open>title\<close>, \<open>link\<close>, \<open>summary\<close> and \<open>full_content\<close>, each with the value of the field of
  that name; \<open>str(r)\<close> does not depend on \<open>full_content\<close>, which \<open>to_dict\<close> exposes.
\<close>

theorem to_dict_exposes_fields:
  "map fst (to_dict r) = [''title'', ''link'', ''summary'', ''full_content''] \<and>
   map_of (to_dict r) ''title'' = Some (title r) \<and>
   map_of (to_dict r) ''link'' = Some (link r) \<and>
   map_of (to_dict r) ''summary'' = Some (PStr (summary r)) \<and>
   map_of (to_dict r) ''full_content'' = Some (PStr (full_content r)) \<and>
   str_WebSearchResult py (r\<lparr>full_content := c\<rparr>) = str_WebSearchResult py r"
  by (simp add: to_dict_def str_WebSearchResult_def)

section \<open>The checks of \<open>metaphor_search\<close>\<close>

lemma load_dotenv_other:
  "sent (load_dotenv w) = sent w" "http_text (load_dotenv w) = http_text w"
  by (simp_all add: load_dotenv_def)

lemma getenv_load_dotenv:
  "getenv (load_dotenv w) k = (case environ w k of Some v \<Rightarrow> Some v | None \<Rightarrow> dotenv_file w k)"
  by (simp add: getenv_def load_dotenv_def map_add_def)

lemma metaphor_search_no_key:
  assumes "getenv (load_dotenv w) ''METAPHOR_API_KEY'' = None \<or>
           getenv (load_dotenv w) ''METAPHOR_API_KEY'' = Some []"
  shows "metaphor_search py w q n = (Inl (ValueError key_not_set), load_dotenv w)"
  using assms by (auto simp: metaphor_search_def metaphor_raw_results_def)

text \<open>
  Claim C3. For every query and \<open>num_results\<close>, if \<open>METAPHOR_API_KEY\<close> is missing (set
  neither in the environment nor in the \<open>.env\<close> file), \<open>metaphor_search\<close> raises its
  configuration error, the \<open>ValueError\<close> saying that the key is not set, and the list of
  network calls is what it was before the call: no request has been made.
\<close>

theorem metaphor_search_missing_key:
  assumes "environ w ''METAPHOR_API_KEY'' = None"
      and "dotenv_file w ''METAPHOR_API_KEY'' = None"
  shows "fst (metaphor_search py w q n) = Inl (ValueError key_not_set) \<and>
         sent (snd (metaphor_search py w q n)) = sent w"
  using assms
  by (simp add: metaphor_search_no_key getenv_load_dotenv load_dotenv_other)

theorem metaphor_search_missing_key_witness:
  "fst (metaphor_search example_lib (example_world\<lparr>environ := Map.empty\<rparr>)
          ''capital of France'' 1) = Inl (ValueError key_not_set) \<and>
   sent (snd (metaphor_search example_lib (example_world\<lparr>environ := Map.empty\<rparr>)
          ''capital of France'' 1)) = []"
  using metaphor_search_missing_key
    [of "example_world\<lparr>environ := Map.empty\<rparr>" example_lib "''capital of France''" 1]
  by (simp add: example_world_def)

text \<open>
  Claim C9. An empty \<open>METAPHOR_API_KEY\<close> is treated as an absent one: for every query and
  \<open>num_results\<close>, if the environment holds the empty string for the key, \<open>metaphor_search\<close>
  raises the same \<open>ValueError\<close> before any network call, and the outcome is the outcome of
  the same call in the world from which the key has been removed.
\<close>

theorem metaphor_search_empty_key:
  assumes "environ w ''METAPHOR_API_KEY'' = Some []"
  shows "fst (metaphor_search py w q n) = Inl (ValueError key_not_set) \<and>
         sent (snd (metaphor_search py w q n)) = sent w \<and>
         fst (metaphor_search py w q n) =
           fst (metaphor_search py
                  (w\<lparr>environ := (environ w)(''METAPHOR_API_KEY'' := None),
                     dotenv_file := (dotenv_file w)(''METAPHOR_API_KEY'' := None)\<rparr>) q n)"
  using assms
  by (simp add: metaphor_search_no_key getenv_load_dotenv load_dotenv_other)

theorem metaphor_search_empty_key_witness:
  "fst (metaphor_search example_lib
          (example_world\<lparr>environ := [''METAPHOR_API_KEY'' \<mapsto> []]\<rparr>)
          ''capital of France'' 1) = Inl (ValueError key_not_set) \<and>
   sent (snd (metaphor_search example_lib
          (example_world\<lparr>environ := [''METAPHOR_API_KEY'' \<mapsto> []]\<rparr>)
          ''capital of France'' 1)) = []"
  using metaphor_search_empty_key
    [of "example_world\<lparr>environ := [''METAPHOR_API_KEY'' \<mapsto> []]\<rparr>" example_lib
        "''capital of France''" 1]
  by (simp add: example_world_def)

text \<open>With a key, the POST is made; its answer is decoded and subscripted.\<close>

lemma metaphor_raw_results_post:
  assumes "getenv (load_dotenv w) ''METAPHOR_API_KEY'' = Some api_key"
      and "api_key \<noteq> []"
      and "http_text w (sent w) (metaphor_post q n api_key) = Inr body"
  shows "metaphor_raw_results py w q n =
           (case json_loads py body of
              None \<Rightarrow> Inl JSONDecodeError
            | Some decoded \<Rightarrow> subscript decoded ''results'',
            (load_dotenv w)\<lparr>sent := sent w @ [metaphor_post q n api_key]\<rparr>)"
  using assms
  by (simp add: metaphor_raw_results_def requests_post_def load_dotenv_other Let_def
      split: option.splits sum.splits)

lemma subscript_lacking:
  assumes "\<forall>items. v = PDict items \<longrightarrow> map_of items k = None"
  shows "subscript v k = Inl (KeyError k) \<or> subscript v k = Inl TypeError"
  using assms by (cases v) auto

text \<open>
  Claim C8. For every query and \<open>num_results\<close> with the API key present, if the body of
  the response to the POST cannot be parsed as JSON, or parses to a value that is not an
  object with a \<open>results\<close> field, then \<open>metaphor_search\<close> raises and returns no result
  list: \<open>JSONDecodeError\<close> for an unparsable body, \<open>KeyError\<close> for an object without the
  field, \<open>TypeError\<close> for a value that is no object. The POST is the only network call:
  no page is fetched.
\<close>

theorem metaphor_search_undecodable_response:
  assumes "getenv (load_dotenv w) ''METAPHOR_API_KEY'' = Some api_key"
      and "api_key \<noteq> []"
      and "http_text w (sent w) (metaphor_post q n api_key) = Inr body"
      and "json_loads py body = None \<or>
           (\<exists>decoded. json_loads py body = Some decoded \<and>
              (\<forall>items. decoded = PDict items \<longrightarrow> map_of items ''results'' = None))"
  shows "(\<exists>e. fst (metaphor_search py w q n) = Inl e \<and>
              e \<in> {JSONDecodeError, KeyError ''results'', TypeError}) \<and>
         sent (snd (metaphor_search py w q n)) = sent w @ [metaphor_post q n api_key]"
proof -
  let ?w' = "(load_dotenv w)\<lparr>sent := sent w @ [metaphor_post q n api_key]\<rparr>"
  have "\<exists>e. (case json_loads py body of None \<Rightarrow> Inl JSONDecodeError
              | Some decoded \<Rightarrow> subscript decoded ''results'') = Inl e \<and>
             e \<in> {JSONDecodeError, KeyError ''results'', TypeError}"
  proof (cases "json_loads py body")
    case None
    then show ?thesis by simp
  next
    case (Some decoded)
    with assms(4) have "\<forall>items. decoded = PDict items \<longrightarrow> map_of items ''results'' = None"
      by simp
    from subscript_lacking [OF this] Some show ?thesis by auto
  qed
  then obtain e where
    e: "(case json_loads py body of None \<Rightarrow> Inl JSONDecodeError
         | Some decoded \<Rightarrow> subscript decoded ''results'') = Inl e"
    and cls: "e \<in> {JSONDecodeError, KeyError ''results'', TypeError}"
    by blast
  have "metaphor_raw_results py w q n = (Inl e, ?w')"
    using metaphor_raw_results_post [OF assms(1-3), of py] e by simp
  then have "metaphor_search py w q n = (Inl e, ?w')"
    by (simp add: metaphor_search_def)
  with cls show ?thesis by simp
qed

theorem metaphor_search_undecodable_response_witness:
  "(\<exists>e. fst (metaphor_search example_lib
               (example_world\<lparr>http_text := example_http error_response\<rparr>)
               ''capital of France'' 1) = Inl e \<and>
        e \<in> {JSONDecodeError, KeyError ''results'', TypeError}) \<and>
   sent (snd (metaphor_search example_lib
               (example_world\<lparr>http_text := example_http error_response\<rparr>)
               ''capital of France'' 1)) = [metaphor_post ''capital of France'' 1 ''secret'']"
proof -
  let ?w = "example_world\<lparr>http_text := example_http error_response\<rparr>"
  have key: "getenv (load_dotenv ?w) ''METAPHOR_API_KEY'' = Some ''secret''"
    by (simp add: getenv_def load_dotenv_def example_world_def)
  have nonempty: "''secret'' \<noteq> []" by simp
  have post: "http_text ?w (sent ?w) (metaphor_post ''capital of France'' 1 ''secret'')
                = Inr error_response"
    by (simp add: example_http_def)
  have lacking: "json_loads example_lib error_response = None \<or>
           (\<exists>decoded. json_loads example_lib error_response = Some decoded \<and>
              (\<forall>items. decoded = PDict items \<longrightarrow> map_of items ''results'' = None))"
    by (simp add: example_lib_def error_response_def paris_response_def
        capitals_response_def two_block_response_def)
  from metaphor_search_undecodable_response [OF key nonempty post lacking]
  show ?thesis by (simp add: example_world_def)
qed

section \<open>\<open>google_search\<close> makes no check\<close>

text \<open>
  Claim C4 asks that \<open>google_search\<close> fail with a configuration error, before any network
  call, when \<open>GOOGLE_API_KEY\<close> or \<open>GOOGLE_CSE_ID\<close> is absent. The function has no such check
  (its sibling \<open>metaphor_search\<close> has one): with a key and no \<open>GOOGLE_CSE_ID\<close>, the search
  request is handed to the client with \<open>cx=None\<close>, and the only error is the one that the
  call itself brings back.
\<close>

theorem google_search_without_cse_id:
  "fst (google_search example_lib (example_world\<lparr>environ := [''GOOGLE_API_KEY'' \<mapsto> ''secret'']\<rparr>)
          ''capital of France'' 1) = Inl (Raised ''HttpError'') \<and>
   sent (snd (google_search example_lib
                (example_world\<lparr>environ := [''GOOGLE_API_KEY'' \<mapsto> ''secret'']\<rparr>)
                ''capital of France'' 1)) =
     [CSE_LIST (Some ''secret'') ''capital of France'' None 1]"
  by (simp add: google_search_def cse_list_execute_def load_dotenv_def getenv_def
      example_world_def example_cse_def Let_def)

section \<open>The output of \<open>handle\<close>\<close>

lemma handle_Inr:
  assumes "metaphor_search py w (query self) (num_results self) = (Inr rs, w')"
  shows "handle py w self = (Inr (join [nl, nl] (map (str_WebSearchResult py) rs)), w')"
  using assms by (simp add: handle_def)

subsection \<open>Cutting a joined text at its blank lines\<close>

lemma no_blank_line_append:
  "no_blank_line (a @ b) \<longleftrightarrow>
     no_blank_line a \<and> no_blank_line b \<and> \<not> (a \<noteq> [] \<and> b \<noteq> [] \<and> last a = nl \<and> hd b = nl)"
proof (induction a rule: no_blank_line.induct)
  case 1
  then show ?case by simp
next
  case (2 c)
  then show ?case by (cases b) auto
next
  case (3 c d cs)
  then show ?case by auto
qed

lemma split_blank_last: "no_blank_line b \<Longrightarrow> split_blank piece b = [piece @ b]"
  by (induction piece b rule: split_blank.induct) auto

lemma split_blank_block:
  "no_blank_line b \<Longrightarrow> b = [] \<or> last b \<noteq> nl \<Longrightarrow>
   split_blank piece (b @ nl # nl # rest) = (piece @ b) # split_blank [] rest"
proof (induction b arbitrary: piece)
  case Nil
  then show ?case by simp
next
  case (Cons c b)
  show ?case
  proof (cases b)
    case Nil
    with Cons.prems show ?thesis by simp
  next
    case (Cons d b')
    with Cons.prems Cons.IH [of "piece @ [c]"] show ?thesis by simp
  qed
qed

text \<open>No piece of a cut holds a blank line.\<close>

lemma split_blank_pieces:
  "no_blank_line piece \<Longrightarrow> piece = [] \<or> last piece \<noteq> nl \<or> s = [] \<or> hd s \<noteq> nl \<Longrightarrow>
   p \<in> set (split_blank piece s) \<Longrightarrow> no_blank_line p"
proof (induction piece s rule: split_blank.induct)
  case (1 piece)
  then show ?case by simp
next
  case (2 piece c)
  then show ?case by (auto simp: no_blank_line_append)
next
  case (3 piece c d cs)
  show ?case
  proof (cases "c = nl \<and> d = nl")
    case True
    with "3.prems" "3.IH"(1) show ?thesis by auto
  next
    case False
    from "3.prems"(1,2) have "no_blank_line (piece @ [c])"
      by (auto simp: no_blank_line_append)
    moreover from False have "piece @ [c] = [] \<or> last (piece @ [c]) \<noteq> nl \<or>
        d # cs = [] \<or> hd (d # cs) \<noteq> nl"
      by auto
    moreover from False "3.prems"(3) have "p \<in> set (split_blank (piece @ [c]) (d # cs))"
      by auto
    ultimately show ?thesis using "3.IH"(2) [OF False] by blast
  qed
qed

text \<open>
  Cutting a joined text gives back the joined blocks exactly when no block holds a blank
  line and no block but the last ends with a newline.
\<close>

lemma split_blank_join:
  assumes "bs \<noteq> []"
  shows "split_blank [] (join [nl, nl] bs) = bs \<longleftrightarrow>
           (\<forall>b\<in>set bs. no_blank_line b) \<and> (\<forall>b\<in>set (butlast bs). b = [] \<or> last b \<noteq> nl)"
  using assms
proof (induction "[nl, nl]" bs rule: join.induct)
  case 1
  then show ?case by simp
next
  case (2 b)
  show ?case
  proof
    assume "split_blank [] (join [nl, nl] [b]) = [b]"
    then have "b \<in> set (split_blank [] b)" by simp
    then have "no_blank_line b" by (rule split_blank_pieces [rotated 2]) simp_all
    then show "(\<forall>b\<in>set [b]. no_blank_line b) \<and>
               (\<forall>b\<in>set (butlast [b]). b = [] \<or> last b \<noteq> nl)"
      by simp
  next
    assume "(\<forall>b\<in>set [b]. no_blank_line b) \<and>
            (\<forall>b\<in>set (butlast [b]). b = [] \<or> last b \<noteq> nl)"
    then show "split_blank [] (join [nl, nl] [b]) = [b]"
      by (simp add: split_blank_last)
  qed
next
  case (3 x y ys)
  let ?rest = "join [nl, nl] (y # ys)"
  have ih: "split_blank [] ?rest = y # ys \<longleftrightarrow>
      (\<forall>b\<in>set (y # ys). no_blank_line b) \<and>
      (\<forall>b\<in>set (butlast (y # ys)). b = [] \<or> last b \<noteq> nl)"
    using "3.hyps" by simp
  show ?case
  proof
    assume eq: "split_blank [] (join [nl, nl] (x # y # ys)) = x # y # ys"
    then have "x \<in> set (split_blank [] (x @ nl # nl # ?rest))" by simp
    then have x: "no_blank_line x" by (rule split_blank_pieces [rotated 2]) simp_all
    have ending: "x = [] \<or> last x \<noteq> nl"
    proof (rule ccontr)
      assume "\<not> (x = [] \<or> last x \<noteq> nl)"
      then obtain x' where x': "x = x' @ [nl]"
        by (cases x rule: rev_cases) auto
      from x x' have "no_blank_line x'" and "x' = [] \<or> last x' \<noteq> nl"
        by (auto simp: no_blank_line_append)
      then have "split_blank [] (x' @ nl # nl # nl # ?rest) =
          x' # split_blank [] (nl # ?rest)"
        using split_blank_block [of x' "[]" "nl # ?rest"] by simp
      with eq x' show False by simp
    qed
    from x ending have "split_blank [] (x @ nl # nl # ?rest) = x # split_blank [] ?rest"
      using split_blank_block [of x "[]" ?rest] by simp
    with eq have "split_blank [] ?rest = y # ys" by simp
    with ih x ending
    show "(\<forall>b\<in>set (x # y # ys). no_blank_line b) \<and>
          (\<forall>b\<in>set (butlast (x # y # ys)). b = [] \<or> last b \<noteq> nl)"
      by simp
  next
    assume cond: "(\<forall>b\<in>set (x # y # ys). no_blank_line b) \<and>
                  (\<forall>b\<in>set (butlast (x # y # ys)). b = [] \<or> last b \<noteq> nl)"
    then have "split_blank [] ?rest = y # ys" using ih by simp
    moreover from cond have "split_blank [] (x @ nl # nl # ?rest) = x # split_blank [] ?rest"
      using split_blank_block [of x "[]" ?rest] by simp
    ultimately show "split_blank [] (join [nl, nl] (x # y # ys)) = x # y # ys" by simp
  qed
qed

lemma join_nonempty: "bs \<noteq> [] \<Longrightarrow> hd bs \<noteq> [] \<Longrightarrow> join sep bs \<noteq> []"
  by (induction sep bs rule: join.induct) auto

lemma str_WebSearchResult_nonempty: "str_WebSearchResult py r \<noteq> []"
  by (simp add: str_WebSearchResult_def)

text \<open>
  The blocks of the joined serializations are these serializations exactly when none holds
  a blank line and none but the last ends with a newline.
\<close>

lemma blocks_of_serialized:
  "blocks_of (join [nl, nl] (map (str_WebSearchResult py) rs)) = map (str_WebSearchResult py) rs
     \<longleftrightarrow> (\<forall>r\<in>set rs. no_blank_line (str_WebSearchResult py r)) \<and>
         (\<forall>r\<in>set (butlast rs). last (str_WebSearchResult py r) \<noteq> nl)"
proof (cases "rs = []")
  case True
  then show ?thesis by (simp add: blocks_of_def)
next
  case False
  let ?bs = "map (str_WebSearchResult py) rs"
  from False have bs: "?bs \<noteq> []" by simp
  moreover from False have "hd ?bs \<noteq> []"
    by (simp add: hd_map str_WebSearchResult_nonempty)
  ultimately have "join [nl, nl] ?bs \<noteq> []" by (rule join_nonempty)
  then have "blocks_of (join [nl, nl] ?bs) = split_blank [] (join [nl, nl] ?bs)"
    by (simp add: blocks_of_def)
  then show ?thesis
    using split_blank_join [OF bs]
    by (simp add: map_butlast [symmetric] str_WebSearchResult_nonempty)
qed

subsection \<open>The two-hit example\<close>

lemma capitals_raw_results:
  "metaphor_raw_results example_lib capitals_world q n =
     (Inr (PList [paris_hit, rome_hit]), capitals_world\<lparr>sent := [metaphor_post q n ''secret'']\<rparr>)"
  by (simp add: metaphor_raw_results_def requests_post_def load_dotenv_def getenv_def
      capitals_world_def example_world_def example_lib_def example_http_def
      capitals_response_def paris_response_def)

lemma capitals_init_paris:
  "WebSearchResult_init example_lib (capitals_world\<lparr>sent := s\<rparr>)
     (PStr ''Paris'') (PStr ''http://example.com/paris'') 3500 300 =
     (Inr paris_result,
      capitals_world\<lparr>sent := s @ [GET (PStr ''http://example.com/paris'')]\<rparr>)"
  by (simp add: WebSearchResult_init_def get_full_content_def requests_get_def get_summary_def
      capitals_world_def example_world_def example_lib_def example_http_def paris_result_def
      slice_to_def)

lemma capitals_init_rome:
  "WebSearchResult_init example_lib (capitals_world\<lparr>sent := s\<rparr>)
     (PStr ''Rome'') (PStr ''http://example.com/rome'') 3500 300 =
     (Inr rome_result,
      capitals_world\<lparr>sent := s @ [GET (PStr ''http://example.com/rome'')]\<rparr>)"
  by (simp add: WebSearchResult_init_def get_full_content_def requests_get_def get_summary_def
      capitals_world_def example_world_def example_lib_def example_http_def rome_result_def
      slice_to_def paris_page_def rome_page_def)

lemma capitals_search:
  "metaphor_search example_lib capitals_world q n =
     (Inr [paris_result, rome_result],
      capitals_world\<lparr>sent := [metaphor_post q n ''secret'',
                                GET (PStr ''http://example.com/paris''),
                                GET (PStr ''http://example.com/rome'')]\<rparr>)"
  by (simp add: metaphor_search_def capitals_raw_results comprehension_def
      paris_hit_def rome_hit_def capitals_init_paris capitals_init_rome)

lemma capitals_output:
  "join [nl, nl] (map (str_WebSearchResult example_lib) [paris_result, rome_result]) =
     ''Title: Paris'' @ [nl] @ ''Link: http://example.com/paris'' @ [nl] @
     ''Summary: Paris is the capital of France.'' @ [nl, nl] @
     ''Title: Rome'' @ [nl] @ ''Link: http://example.com/rome'' @ [nl] @
     ''Summary: Rome Capital of Italy.''"
  by (simp add: str_WebSearchResult_def format_field_def paris_result_def rome_result_def)

lemma capitals_blocks:
  "str_WebSearchResult example_lib paris_result =
     ''Title: Paris'' @ [nl] @ ''Link: http://example.com/paris'' @ [nl] @
     ''Summary: Paris is the capital of France.''"
  "str_WebSearchResult example_lib rome_result =
     ''Title: Rome'' @ [nl] @ ''Link: http://example.com/rome'' @ [nl] @
     ''Summary: Rome Capital of Italy.''"
  by (simp_all add: str_WebSearchResult_def format_field_def paris_result_def rome_result_def)

text \<open>
  Claim C5, as amended. For every list of \<open>N\<close> normalized results that the search
  returns, \<open>handle\<close> returns the text obtained by serializing each result as
  \<open>Title: {title}\<close>, \<open>Link: {link}\<close>, \<open>Summary: {summary}\<close> on three lines and joining the
  \<open>N\<close> blocks with two newlines between consecutive blocks. The blocks of the output,
  read by cutting it at its blank lines, are exactly these \<open>N\<close> blocks if and only if no
  serialized result holds a blank line and none but the last ends with a newline.
\<close>

theorem handle_joins_serialized_results:
  assumes "metaphor_search py w (query self) (num_results self) = (Inr rs, w')"
  shows "handle py w self = (Inr (join [nl, nl] (map (str_WebSearchResult py) rs)), w') \<and>
         (\<forall>r\<in>set rs. str_WebSearchResult py r =
              ''Title: '' @ format_field py (title r) @ [nl] @
              ''Link: '' @ format_field py (link r) @ [nl] @
              ''Summary: '' @ summary r) \<and>
         (blocks_of (join [nl, nl] (map (str_WebSearchResult py) rs))
            = map (str_WebSearchResult py) rs \<longleftrightarrow>
          (\<forall>r\<in>set rs. no_blank_line (str_WebSearchResult py r)) \<and>
          (\<forall>r\<in>set (butlast rs). last (str_WebSearchResult py r) \<noteq> nl))"
proof -
  have "\<forall>r\<in>set rs. str_WebSearchResult py r =
              ''Title: '' @ format_field py (title r) @ [nl] @
              ''Link: '' @ format_field py (link r) @ [nl] @
              ''Summary: '' @ summary r"
    by (simp add: str_WebSearchResult_def)
  with handle_Inr [OF assms] blocks_of_serialized [of py rs] show ?thesis
    by blast
qed

theorem handle_joins_serialized_results_witness:
  "handle example_lib capitals_world \<lparr>query = ''capitals'', num_results = 2\<rparr> =
     (Inr (''Title: Paris'' @ [nl] @ ''Link: http://example.com/paris'' @ [nl] @
           ''Summary: Paris is the capital of France.'' @ [nl, nl] @
           ''Title: Rome'' @ [nl] @ ''Link: http://example.com/rome'' @ [nl] @
           ''Summary: Rome Capital of Italy.''),
      capitals_world\<lparr>sent := [metaphor_post ''capitals'' 2 ''secret'',
                                GET (PStr ''http://example.com/paris''),
                                GET (PStr ''http://example.com/rome'')]\<rparr>) \<and>
   blocks_of (join [nl, nl]
     (map (str_WebSearchResult example_lib) [paris_result, rome_result])) =
     [''Title: Paris'' @ [nl] @ ''Link: http://example.com/paris'' @ [nl] @
      ''Summary: Paris is the capital of France.'',
      ''Title: Rome'' @ [nl] @ ''Link: http://example.com/rome'' @ [nl] @
      ''Summary: Rome Capital of Italy.'']"
proof -
  let ?self = "\<lparr>query = ''capitals'', num_results = 2\<rparr>"
  have rs: "metaphor_search example_lib capitals_world (query ?self) (num_results ?self) =
     (Inr [paris_result, rome_result],
      capitals_world\<lparr>sent := [metaphor_post ''capitals'' 2 ''secret'',
                                GET (PStr ''http://example.com/paris''),
                                GET (PStr ''http://example.com/rome'')]\<rparr>)"
    by (simp add: capitals_search)
  have plain:
    "(\<forall>r\<in>set [paris_result, rome_result]. no_blank_line (str_WebSearchResult example_lib r)) \<and>
     (\<forall>r\<in>set (butlast [paris_result, rome_result]).
        last (str_WebSearchResult example_lib r) \<noteq> nl)"
    by (simp add: capitals_blocks)
  note joined = handle_joins_serialized_results [OF rs]
  from joined have out: "handle example_lib capitals_world ?self =
     (Inr (join [nl, nl] (map (str_WebSearchResult example_lib) [paris_result, rome_result])),
      capitals_world\<lparr>sent := [metaphor_post ''capitals'' 2 ''secret'',
                                GET (PStr ''http://example.com/paris''),
                                GET (PStr ''http://example.com/rome'')]\<rparr>)"
    by (rule conjunct1)
  from joined plain
  have "blocks_of (join [nl, nl]
          (map (str_WebSearchResult example_lib) [paris_result, rome_result])) =
        map (str_WebSearchResult example_lib) [paris_result, rome_result]"
    by blast
  with out show ?thesis by (simp add: capitals_output capitals_blocks)
qed

lemma two_block_search:
  "fst (metaphor_search example_lib two_block_world q n) =
     Inr [paris_result\<lparr>title := PStr two_block_title\<rparr>]"
  by (simp add: metaphor_search_def metaphor_raw_results_def requests_post_def load_dotenv_def
      getenv_def two_block_world_def example_world_def example_lib_def example_http_def
      paris_response_def capitals_response_def two_block_response_def comprehension_def
      WebSearchResult_init_def get_full_content_def requests_get_def get_summary_def
      slice_to_def paris_result_def)

text \<open>
  The claim as it was stated fails when a field holds line breaks: the provider's single
  hit of this example has a title that ends one block and starts another, so the output
  for \<open>N = 1\<close> is, character for character, two blocks joined by one blank line.
\<close>

theorem one_result_two_blocks_counterexample:
  "map_sum id length (fst (metaphor_search example_lib two_block_world ''q'' 1)) = Inr 1 \<and>
   fst (handle example_lib two_block_world \<lparr>query = ''q'', num_results = 1\<rparr>) =
     Inr (join [nl, nl]
            [''Title: Paris'' @ [nl] @ ''Link: http://a'' @ [nl] @ ''Summary: b'',
             ''Title: Rome'' @ [nl] @ ''Link: http://example.com/paris'' @ [nl] @
             ''Summary: Paris is the capital of France.'']) \<and>
   map_sum id (length \<circ> blocks_of)
     (fst (handle example_lib two_block_world \<lparr>query = ''q'', num_results = 1\<rparr>)) = Inr 2"
proof -
  obtain w' where "metaphor_search example_lib two_block_world ''q'' 1 =
     (Inr [paris_result\<lparr>title := PStr two_block_title\<rparr>], w')"
    using two_block_search [of "''q''" 1]
    by (cases "metaphor_search example_lib two_block_world ''q'' 1") simp
  then show ?thesis
    by (simp add: handle_def str_WebSearchResult_def format_field_def paris_result_def
        two_block_title_def blocks_of_def)
qed

subsection \<open>The comprehension keeps the order of the hits\<close>

text \<open>
  Result \<open>i\<close> of the comprehension is built from hit \<open>i\<close>, in the world in which the pages
  of the hits before it have been fetched, in their order.
\<close>

lemma results_from_nth:
  assumes "results_from py key w hits = (Inr rs, w')"
  shows "length rs = length hits \<and>
         w' = w\<lparr>sent := sent w @ map (GET \<circ> link) rs\<rparr> \<and>
         (\<forall>i<length hits.
            subscript (hits ! i) ''title'' = Inr (title (rs ! i)) \<and>
            subscript (hits ! i) key = Inr (link (rs ! i)) \<and>
            fst (WebSearchResult_init py (w\<lparr>sent := sent w @ map (GET \<circ> link) (take i rs)\<rparr>)
                   (title (rs ! i)) (link (rs ! i)) 3500 300) = Inr (rs ! i))"
  using assms
proof (induction hits arbitrary: w rs w')
  case Nil
  then show ?case by simp
next
  case (Cons hit rest)
  from Cons.prems obtain t l r w1 rs' where
    t: "subscript hit ''title'' = Inr t" and l: "subscript hit key = Inr l" and
    r: "WebSearchResult_init py w t l 3500 300 = (Inr r, w1)" and
    rest: "results_from py key w1 rest = (Inr rs', w')" and rs: "rs = r # rs'"
    by (auto split: sum.splits prod.splits)
  note f = WebSearchResult_init_fields [OF r]
  note ih = Cons.IH [OF rest]
  have w1: "w1 = w\<lparr>sent := sent w @ [GET l]\<rparr>" by (rule f(6))
  have len: "length rs = length (hit # rest)" using ih rs by simp
  have w': "w' = w\<lparr>sent := sent w @ map (GET \<circ> link) rs\<rparr>"
    using ih rs w1 f(2) by simp
  have nth: "subscript ((hit # rest) ! i) ''title'' = Inr (title (rs ! i)) \<and>
            subscript ((hit # rest) ! i) key = Inr (link (rs ! i)) \<and>
            fst (WebSearchResult_init py (w\<lparr>sent := sent w @ map (GET \<circ> link) (take i rs)\<rparr>)
                   (title (rs ! i)) (link (rs ! i)) 3500 300) = Inr (rs ! i)"
    if "i < length (hit # rest)" for i
  proof (cases i)
    case 0
    then show ?thesis using t l r rs f(1,2) by simp
  next
    case (Suc j)
    with that have "j < length rest" by simp
    with ih have "subscript (rest ! j) ''title'' = Inr (title (rs' ! j)) \<and>
            subscript (rest ! j) key = Inr (link (rs' ! j)) \<and>
            fst (WebSearchResult_init py (w1\<lparr>sent := sent w1 @ map (GET \<circ> link) (take j rs')\<rparr>)
                   (title (rs' ! j)) (link (rs' ! j)) 3500 300) = Inr (rs' ! j)"
      by blast
    then show ?thesis using Suc rs w1 f(2) by simp
  qed
  from len w' nth show ?case by blast
qed

text \<open>
  Claim C6, as amended. For every list of raw hits that the backend returns (the elements
  of the \<open>results\<close> of its response), \<open>handle\<close> joins the serialized results in the order of
  the hits: there are as many results as hits, and result \<open>i\<close> is built from hit \<open>i\<close>, with
  its title, its url, and the summary of the page fetched for it after the pages of the
  hits before it. The output, cut at its blank lines, has one block for each hit with
  block \<open>i\<close> the serialization of the result of hit \<open>i\<close>, if and only if no serialized
  result holds a blank line and none but the last ends with a newline.
\<close>

theorem handle_preserves_backend_order:
  assumes "metaphor_raw_results py w (query self) (num_results self) = (Inr raw_results, w1)"
      and "iterate raw_results = Inr hits"
      and "metaphor_search py w (query self) (num_results self) = (Inr rs, w')"
  shows "handle py w self = (Inr (join [nl, nl] (map (str_WebSearchResult py) rs)), w') \<and>
         length rs = length hits \<and>
         (\<forall>i<length hits.
            subscript (hits ! i) ''title'' = Inr (title (rs ! i)) \<and>
            subscript (hits ! i) ''url'' = Inr (link (rs ! i)) \<and>
            fst (WebSearchResult_init py (w1\<lparr>sent := sent w1 @ map (GET \<circ> link) (take i rs)\<rparr>)
                   (title (rs ! i)) (link (rs ! i)) 3500 300) = Inr (rs ! i)) \<and>
         (length (blocks_of (join [nl, nl] (map (str_WebSearchResult py) rs))) = length hits \<and>
          (\<forall>i<length hits.
             blocks_of (join [nl, nl] (map (str_WebSearchResult py) rs)) ! i =
               str_WebSearchResult py (rs ! i)) \<longleftrightarrow>
          (\<forall>r\<in>set rs. no_blank_line (str_WebSearchResult py r)) \<and>
          (\<forall>r\<in>set (butlast rs). last (str_WebSearchResult py r) \<noteq> nl))"
proof -
  from assms have "results_from py ''url'' w1 hits = (Inr rs, w')"
    by (simp add: metaphor_search_def comprehension_def)
  note nth = results_from_nth [OF this]
  then have len: "length rs = length hits" by simp
  let ?blocks = "blocks_of (join [nl, nl] (map (str_WebSearchResult py) rs))"
  have "?blocks = map (str_WebSearchResult py) rs \<longleftrightarrow>
        length ?blocks = length hits \<and>
        (\<forall>i<length hits. ?blocks ! i = str_WebSearchResult py (rs ! i))"
    using len by (auto simp: list_eq_iff_nth_eq)
  with blocks_of_serialized [of py rs]
  have "length ?blocks = length hits \<and>
        (\<forall>i<length hits. ?blocks ! i = str_WebSearchResult py (rs ! i)) \<longleftrightarrow>
        (\<forall>r\<in>set rs. no_blank_line (str_WebSearchResult py r)) \<and>
        (\<forall>r\<in>set (butlast rs). last (str_WebSearchResult py r) \<noteq> nl)"
    by simp
  with nth handle_Inr [OF assms(3)] show ?thesis by blast
qed

theorem handle_preserves_backend_order_witness:
  "fst (handle example_lib capitals_world \<lparr>query = ''capitals'', num_results = 2\<rparr>) =
     Inr (''Title: Paris'' @ [nl] @ ''Link: http://example.com/paris'' @ [nl] @
          ''Summary: Paris is the capital of France.'' @ [nl, nl] @
          ''Title: Rome'' @ [nl] @ ''Link: http://example.com/rome'' @ [nl] @
          ''Summary: Rome Capital of Italy.'') \<and>
   subscript ([paris_hit, rome_hit] ! 0) ''title'' = Inr (title ([paris_result, rome_result] ! 0)) \<and>
   subscript ([paris_hit, rome_hit] ! 1) ''title'' = Inr (title ([paris_result, rome_result] ! 1)) \<and>
   blocks_of (join [nl, nl]
     (map (str_WebSearchResult example_lib) [paris_result, rome_result])) ! 0 =
     str_WebSearchResult example_lib ([paris_result, rome_result] ! 0) \<and>
   blocks_of (join [nl, nl]
     (map (str_WebSearchResult example_lib) [paris_result, rome_result])) ! 1 =
     str_WebSearchResult example_lib ([paris_result, rome_result] ! 1)"
proof -
  let ?self = "\<lparr>query = ''capitals'', num_results = 2\<rparr>"
  let ?blocks = "blocks_of (join [nl, nl]
     (map (str_WebSearchResult example_lib) [paris_result, rome_result]))"
  have raw: "metaphor_raw_results example_lib capitals_world (query ?self) (num_results ?self) =
     (Inr (PList [paris_hit, rome_hit]),
      capitals_world\<lparr>sent := [metaphor_post ''capitals'' 2 ''secret'']\<rparr>)"
    by (simp add: capitals_raw_results)
  have hits: "iterate (PList [paris_hit, rome_hit]) = Inr [paris_hit, rome_hit]"
    by simp
  have rs: "metaphor_search example_lib capitals_world (query ?self) (num_results ?self) =
     (Inr [paris_result, rome_result],
      capitals_world\<lparr>sent := [metaphor_post ''capitals'' 2 ''secret'',
                                GET (PStr ''http://example.com/paris''),
                                GET (PStr ''http://example.com/rome'')]\<rparr>)"
    by (simp add: capitals_search)
  have plain:
    "(\<forall>r\<in>set [paris_result, rome_result]. no_blank_line (str_WebSearchResult example_lib r)) \<and>
     (\<forall>r\<in>set (butlast [paris_result, rome_result]).
        last (str_WebSearchResult example_lib r) \<noteq> nl)"
    by (simp add: capitals_blocks)
  note order = handle_preserves_backend_order [OF raw hits rs]
  from order have out: "fst (handle example_lib capitals_world ?self) =
      Inr (join [nl, nl] (map (str_WebSearchResult example_lib) [paris_result, rome_result]))"
    by simp
  from order [THEN conjunct2, THEN conjunct2, THEN conjunct1, rule_format, of 0]
  have first: "subscript ([paris_hit, rome_hit] ! 0) ''title'' =
      Inr (title ([paris_result, rome_result] ! 0))"
    by simp
  from order [THEN conjunct2, THEN conjunct2, THEN conjunct1, rule_format, of 1]
  have second: "subscript ([paris_hit, rome_hit] ! 1) ''title'' =
      Inr (title ([paris_result, rome_result] ! 1))"
    by simp
  from order [THEN conjunct2, THEN conjunct2, THEN conjunct2] plain
  have blocks: "\<forall>i<length [paris_hit, rome_hit].
      ?blocks ! i = str_WebSearchResult example_lib ([paris_result, rome_result] ! i)"
    by blast
  from blocks have b0: "?blocks ! 0 =
      str_WebSearchResult example_lib ([paris_result, rome_result] ! 0)"
    by simp
  from blocks have b1: "?blocks ! 1 =
      str_WebSearchResult example_lib ([paris_result, rome_result] ! 1)"
    by simp
  from out first second b0 b1 show ?thesis by (simp only: capitals_output)
qed

text \<open>
  The claim as it was stated fails when a field holds line breaks: for the single hit whose
  title ends one block and starts another, the first block of the output is not the
  serialization of the result of the first hit.
\<close>

theorem first_block_not_first_hit_counterexample:
  "fst (metaphor_search example_lib two_block_world ''q'' 1) =
     Inr [paris_result\<lparr>title := PStr two_block_title\<rparr>] \<and>
   map_sum id (\<lambda>out. blocks_of out ! 0)
     (fst (handle example_lib two_block_world \<lparr>query = ''q'', num_results = 1\<rparr>)) =
     Inr (''Title: Paris'' @ [nl] @ ''Link: http://a'' @ [nl] @ ''Summary: b'') \<and>
   str_WebSearchResult example_lib (paris_result\<lparr>title := PStr two_block_title\<rparr>) \<noteq>
     ''Title: Paris'' @ [nl] @ ''Link: http://a'' @ [nl] @ ''Summary: b''"
proof -
  obtain w' where "metaphor_search example_lib two_block_world ''q'' 1 =
     (Inr [paris_result\<lparr>title := PStr two_block_title\<rparr>], w')"
    using two_block_search [of "''q''" 1]
    by (cases "metaphor_search example_lib two_block_world ''q'' 1") simp
  then show ?thesis
    by (simp add: handle_def str_WebSearchResult_def format_field_def paris_result_def
        two_block_title_def blocks_of_def)
qed

end
